theory Spec2Isabelle
  imports Main
begin

section \<open>Data of src/server.ts\<close>

text \<open>
  A value thrown by the server or by one of the libraries it calls, kept as the text
  that the template \<^verbatim>\<open>`ERR: ${error}`\<close> renders for it.
\<close>

datatype error = Thrown string

fun error_text :: "error \<Rightarrow> string" where
  "error_text (Thrown s) = s"

text \<open>
  The interface \<^verbatim>\<open>Settings\<close> and the constant \<^verbatim>\<open>defaultSettings\<close>. The source
  casts what the client pushes (\<^verbatim>\<open><Settings>change.settings\<close>) without a check; the
  model takes every settings value to have the declared type, both lists present.
\<close>

record settings =
  html_filetypes :: "string list"
  css_filetypes :: "string list"

definition defaultSettings :: settings where
  "defaultSettings = \<lparr>html_filetypes = [''html''], css_filetypes = [''css'']\<rparr>"

text \<open>
  \<^verbatim>\<open>Thenable<Settings>\<close>: either a value already resolved
  (\<^verbatim>\<open>Promise.resolve(globalSettings)\<close>) or the request
  \<^verbatim>\<open>connection.workspace.getConfiguration({scopeUri, section})\<close> in flight.
\<close>

datatype 'a thenable = Resolved 'a | ConfigurationRequest string string

text \<open>
  A document of the synchronisation layer (\<^verbatim>\<open>TextDocument\<close>): its uri, its
  language id and the text \<^verbatim>\<open>getText()\<close> returns.
\<close>

record text_document =
  doc_uri :: string
  languageId :: string
  getText :: string

text \<open>The request parameters \<^verbatim>\<open>TextDocumentPositionParams\<close>.\<close>

record position =
  line :: nat
  character :: nat

record text_document_identifier =
  uri :: string

record text_document_position_params =
  textDocument :: text_document_identifier
  position :: position

text \<open>The object \<^verbatim>\<open>buildRange\<close> returns: fields \<^verbatim>\<open>start\<close> and \<^verbatim>\<open>end\<close>.\<close>

record range =
  start :: position
  end' :: position

datatype insert_text_format = InsertTextFormat_PlainText | InsertTextFormat_Snippet

datatype completion_item_kind =
    Kind_Text | Kind_Method | Kind_Function | Kind_Constructor | Kind_Field
  | Kind_Variable | Kind_Class | Kind_Interface | Kind_Module | Kind_Property
  | Kind_Unit | Kind_Value | Kind_Enum | Kind_Keyword | Kind_Snippet
  | Kind_Color | Kind_File | Kind_Reference | Kind_Folder | Kind_EnumMember
  | Kind_Constant | Kind_Struct | Kind_Event | Kind_Operator | Kind_TypeParameter

record text_edit =
  range :: range
  newText :: string

record item_data =
  data_range :: range
  data_textResult :: string

text \<open>The object literal of \<^verbatim>\<open>buildCompletionItem\<close>.\<close>

record completion_item =
  insertTextFormat :: insert_text_format
  label :: string
  detail :: string
  documentation :: string
  textEdit :: text_edit
  kind :: completion_item_kind
  data :: item_data

subsection \<open>The emmet package\<close>

text \<open>
  The third argument of \<^verbatim>\<open>extract\<close>: \<^verbatim>\<open>{}\<close> is \<open>opt_type = None\<close>,
  \<^verbatim>\<open>{ type: "stylesheet" }\<close> is \<open>opt_type = Some ''stylesheet''\<close>.
\<close>

record extract_opts =
  opt_type :: "string option"

text \<open>
  What \<^verbatim>\<open>extract\<close> returns when it finds something. The server guards
  \<^verbatim>\<open>extractPosition?.abbreviation != undefined\<close>, so the field may be absent.
\<close>

record extracted_abbreviation =
  "abbreviation" :: "string option"
  location :: nat
  ex_start :: nat
  ex_end :: nat

text \<open>
  The argument of \<^verbatim>\<open>resolveConfig\<close>: the optional \<^verbatim>\<open>type\<close> and the optional
  option \<^verbatim>\<open>"output.field"\<close>, a function of the field's index and placeholder.
\<close>

record user_config =
  config_type :: "string option"
  output_field :: "(nat \<Rightarrow> string \<Rightarrow> string) option"

text \<open>
  The six functions imported from emmet are not part of this repository; they are
  parameters of the model. Each may throw (\<open>Inl\<close>). \<open>'c\<close> is the resolved
  configuration, \<open>'m\<close> and \<open>'s\<close> the parsed markup and stylesheet abbreviations.
\<close>

record ('c, 'm, 's) emmet =
  "extract" :: "string \<Rightarrow> nat \<Rightarrow> extract_opts \<Rightarrow> error + extracted_abbreviation option"
  resolveConfig :: "user_config \<Rightarrow> error + 'c"
  parseMarkup :: "string \<Rightarrow> 'c \<Rightarrow> error + 'm"
  stringifyMarkup :: "'m \<Rightarrow> 'c \<Rightarrow> error + string"
  parseStylesheet :: "string \<Rightarrow> 'c \<Rightarrow> error + 's"
  stringifyStylesheet :: "'s \<Rightarrow> 'c \<Rightarrow> error + string"

subsection \<open>The module's variables\<close>

text \<open>
  The variables declared with \<^verbatim>\<open>let\<close> at module level, the documents of the
  synchronisation layer, and the two things the handlers do to the outside:
  \<open>console\<close> holds the lines written with \<^verbatim>\<open>connection.console.log\<close>, oldest
  first, and \<open>extract_calls\<close> the arguments of every call of \<^verbatim>\<open>extract\<close>, oldest
  first.
\<close>

record server_state =
  hasConfigurationCapability :: bool
  hasWorkspaceFolderCapability :: bool
  hasDiagnosticRelatedInformationCapability :: bool
  globalSettings :: settings
  documentSettings :: "string \<rightharpoonup> settings thenable"
  documents :: "string \<rightharpoonup> text_document"
  console :: "string list"
  extract_calls :: "(string \<times> nat \<times> extract_opts) list"

definition initial_state :: "(string \<rightharpoonup> text_document) \<Rightarrow> server_state" where
  "initial_state docs =
     \<lparr>hasConfigurationCapability = False,
      hasWorkspaceFolderCapability = False,
      hasDiagnosticRelatedInformationCapability = False,
      globalSettings = defaultSettings,
      documentSettings = Map.empty,
      documents = docs,
      console = [],
      extract_calls = []\<rparr>"

text \<open>
  A computation that may throw (\<open>Inl\<close>) and may change the state.
  \<^verbatim>\<open>connection.console.log\<close> itself is taken not to throw.
\<close>

type_synonym 'a outcome = "(error + 'a) \<times> server_state"

definition console_log :: "string \<Rightarrow> server_state \<Rightarrow> server_state" where
  "console_log msg st = st\<lparr>console := console st @ [msg]\<rparr>"

text \<open>\<^verbatim>\<open>try { body } catch (error) { handler }\<close>\<close>

definition try_catch ::
  "(server_state \<Rightarrow> 'a outcome) \<Rightarrow> (error \<Rightarrow> server_state \<Rightarrow> 'a outcome) \<Rightarrow>
   server_state \<Rightarrow> 'a outcome" where
  "try_catch body handler st =
     (case body st of
        (Inl e, st') \<Rightarrow> handler e st'
      | (Inr v, st') \<Rightarrow> (Inr v, st'))"

section \<open>Initialisation\<close>

record workspace_client_capabilities =
  configuration :: "bool option"
  workspaceFolders :: "bool option"

record publish_diagnostics_client_capabilities =
  relatedInformation :: "bool option"

record text_document_client_capabilities =
  publishDiagnostics :: "publish_diagnostics_client_capabilities option"

record client_capabilities =
  workspace :: "workspace_client_capabilities option"
  textDocument_capabilities :: "text_document_client_capabilities option"

record initialize_params =
  capabilities :: client_capabilities

datatype text_document_sync_kind = Sync_None | Sync_Full | Sync_Incremental

record completion_options =
  resolveProvider :: bool
  triggerCharacters_option :: "string list"

record workspace_folders_server_capabilities =
  supported :: bool

record server_capabilities =
  textDocumentSync :: text_document_sync_kind
  completionProvider :: completion_options
  workspace_workspaceFolders :: "workspace_folders_server_capabilities option"

record initialize_result =
  result_capabilities :: server_capabilities

text \<open>
  The array \<^verbatim>\<open>triggerCharacters\<close> of \<^verbatim>\<open>onInitialize\<close>, in the source's order:
  eight punctuation characters, then the group the source marks \<^verbatim>\<open>// alpha\<close>, then
  the group it marks \<^verbatim>\<open>// num\<close>. Every element is a string of one character.
\<close>

definition triggerCharacters :: "string list" where
  "triggerCharacters =
     [''>'', '')'', '']'', ''}'',
      ''@'', ''*'', ''$'', ''+''] @
     map (\<lambda>c. [c]) ''abcdefghijklmnopqrstuvwxyz'' @
     map (\<lambda>c. [c]) ''0123456789''"

text \<open>\<^verbatim>\<open>!!x\<close> for an optional boolean.\<close>

definition truthy :: "bool option \<Rightarrow> bool" where
  "truthy b = (b = Some True)"

definition onInitialize :: "initialize_params \<Rightarrow> server_state \<Rightarrow> initialize_result \<times> server_state" where
  "onInitialize params st =
     (let caps = capabilities params;
          st1 = st\<lparr>hasConfigurationCapability :=
                    (case workspace caps of None \<Rightarrow> False | Some w \<Rightarrow> truthy (configuration w))\<rparr>;
          st2 = st1\<lparr>hasWorkspaceFolderCapability :=
                    (case workspace caps of None \<Rightarrow> False | Some w \<Rightarrow> truthy (workspaceFolders w))\<rparr>;
          st3 = st2\<lparr>hasDiagnosticRelatedInformationCapability :=
                    (case textDocument_capabilities caps of
                       None \<Rightarrow> False
                     | Some td \<Rightarrow>
                         (case publishDiagnostics td of
                            None \<Rightarrow> False
                          | Some pd \<Rightarrow> truthy (relatedInformation pd)))\<rparr>;
          result = \<lparr>result_capabilities =
                     \<lparr>textDocumentSync = Sync_Incremental,
                      completionProvider =
                        \<lparr>resolveProvider = True, triggerCharacters_option = triggerCharacters\<rparr>,
                      workspace_workspaceFolders = None\<rparr>\<rparr>;
          result' = (if hasWorkspaceFolderCapability st3
                     then result\<lparr>result_capabilities :=
                            (result_capabilities result)\<lparr>workspace_workspaceFolders :=
                               Some \<lparr>supported = True\<rparr>\<rparr>\<rparr>
                     else result)
      in (result', st3))"

text \<open>
  \<^verbatim>\<open>onInitialized\<close> registers with the client for configuration changes and, when
  \<^verbatim>\<open>hasWorkspaceFolderCapability\<close> holds, installs the handler below for
  workspace-folder changes; it assigns no variable.
\<close>

definition onInitialized :: "server_state \<Rightarrow> server_state" where
  "onInitialized st = st"

definition onDidChangeWorkspaceFolders :: "server_state \<Rightarrow> server_state" where
  "onDidChangeWorkspaceFolders st =
     (if hasWorkspaceFolderCapability st
      then console_log ''Workspace folder change event received.'' st
      else st)"

section \<open>Settings\<close>

definition onDidChangeConfiguration :: "settings \<Rightarrow> server_state \<Rightarrow> server_state" where
  "onDidChangeConfiguration change_settings st = st\<lparr>globalSettings := change_settings\<rparr>"

text \<open>
  \<^verbatim>\<open>getDocumentSettings\<close>, the one function that inserts into
  \<^verbatim>\<open>documentSettings\<close>. No handler of the file calls it.
\<close>

definition getDocumentSettings :: "string \<Rightarrow> server_state \<Rightarrow> settings thenable \<times> server_state" where
  "getDocumentSettings resource st =
     (if \<not> hasConfigurationCapability st then (Resolved (globalSettings st), st)
      else
        (case documentSettings st resource of
           Some result \<Rightarrow> (result, st)
         | None \<Rightarrow>
             (let result = ConfigurationRequest resource ''languageServerExample''
              in (result, st\<lparr>documentSettings := (documentSettings st)(resource \<mapsto> result)\<rparr>))))"

definition onDidClose :: "string \<Rightarrow> server_state \<Rightarrow> server_state" where
  "onDidClose e_document_uri st =
     st\<lparr>documentSettings := (documentSettings st)(e_document_uri := None)\<rparr>"

section \<open>Rendering a snippet\<close>

text \<open>
  The text of a number in a template string. The engine numbers its fields with
  non-negative whole numbers, and for those (below ten to the power 21, where
  JavaScript changes to exponent notation) the text is the decimal digits.
\<close>

fun number_to_string :: "nat \<Rightarrow> string" where
  "number_to_string n =
     (if n < 10 then [''0123456789'' ! n]
      else number_to_string (n div 10) @ [''0123456789'' ! (n mod 10)])"

text \<open>
  The function both \<^verbatim>\<open>getCssSnippet\<close> and \<^verbatim>\<open>getHtmlSnippet\<close> pass as
  \<^verbatim>\<open>"output.field"\<close>:
  \<^verbatim>\<open>(index, placeholder) => `\$\{${index}${placeholder ? ":" + placeholder : ""}\}`\<close>.
  A string is truthy when it is not empty.
\<close>

definition field_hook :: "nat \<Rightarrow> string \<Rightarrow> string" where
  "field_hook index placeholder =
     ''${'' @ number_to_string index @ (if placeholder \<noteq> [] then '':'' @ placeholder else []) @ ''}''"

text \<open>Sequencing of calls that may throw: the first error ends the function.\<close>

definition and_then :: "error + 'a \<Rightarrow> ('a \<Rightarrow> error + 'b) \<Rightarrow> error + 'b" where
  "and_then r f = (case r of Inl e \<Rightarrow> Inl e | Inr v \<Rightarrow> f v)"

definition getCssSnippet :: "('c, 'm, 's) emmet \<Rightarrow> string \<Rightarrow> error + string" where
  "getCssSnippet eng abbr =
     and_then (resolveConfig eng \<lparr>config_type = Some ''stylesheet'', output_field = Some field_hook\<rparr>)
       (\<lambda>cssConfig. and_then (parseStylesheet eng abbr cssConfig)
          (\<lambda>markup. stringifyStylesheet eng markup cssConfig))"

definition getHtmlSnippet :: "('c, 'm, 's) emmet \<Rightarrow> string \<Rightarrow> error + string" where
  "getHtmlSnippet eng abbr =
     and_then (resolveConfig eng \<lparr>config_type = None, output_field = Some field_hook\<rparr>)
       (\<lambda>htmlconfig. and_then (parseMarkup eng abbr htmlconfig)
          (\<lambda>markup. stringifyMarkup eng markup htmlconfig))"

section \<open>Assembling a completion item\<close>

definition buildCompletionItem :: "string \<Rightarrow> string \<Rightarrow> range \<Rightarrow> completion_item" where
  "buildCompletionItem abbr textResult rng =
     \<lparr>insertTextFormat = InsertTextFormat_Snippet,
      label = abbr,
      detail = abbr,
      documentation = textResult,
      textEdit = \<lparr>range = rng, newText = textResult\<rparr>,
      kind = Kind_Snippet,
      data = \<lparr>data_range = rng, data_textResult = textResult\<rparr>\<rparr>"

definition buildRange :: "nat \<Rightarrow> nat \<Rightarrow> nat \<Rightarrow> range" where
  "buildRange linenr left right =
     \<lparr>start = \<lparr>line = linenr, character = left\<rparr>,
      end' = \<lparr>line = linenr, character = right\<rparr>\<rparr>"

text \<open>
  \<^verbatim>\<open>opts = typeof(opts) !== 'undefined' ? opts : {}\<close>
\<close>

definition opts_or_empty :: "extract_opts option \<Rightarrow> extract_opts" where
  "opts_or_empty opts = (case opts of None \<Rightarrow> \<lparr>opt_type = None\<rparr> | Some given \<Rightarrow> given)"

text \<open>The call \<^verbatim>\<open>extract(line, char, opts)\<close>, recorded in \<open>extract_calls\<close>.\<close>

definition call_extract ::
  "('c, 'm, 's) emmet \<Rightarrow> string \<Rightarrow> nat \<Rightarrow> extract_opts \<Rightarrow> server_state \<Rightarrow>
   (extracted_abbreviation option) outcome" where
  "call_extract eng ln char opts st =
     (extract eng ln char opts, st\<lparr>extract_calls := extract_calls st @ [(ln, char, opts)]\<rparr>)"

text \<open>
  The body of the \<^verbatim>\<open>try\<close> block of \<^verbatim>\<open>getCompeletionItem\<close>. A function that
  ends without \<^verbatim>\<open>return\<close> yields \<^verbatim>\<open>undefined\<close>, here \<open>None\<close>.
\<close>

definition getCompeletionItem_body ::
  "('c, 'm, 's) emmet \<Rightarrow> nat \<Rightarrow> string \<Rightarrow> nat \<Rightarrow> extract_opts \<Rightarrow> server_state \<Rightarrow>
   (completion_item option) outcome" where
  "getCompeletionItem_body eng linenr ln char opts st =
     (case call_extract eng ln char opts st of
        (Inl e, st') \<Rightarrow> (Inl e, st')
      | (Inr extractPosition, st') \<Rightarrow>
          (case extractPosition of
             None \<Rightarrow> (Inr None, st')
           | Some ep \<Rightarrow>
               (case abbreviation ep of
                  None \<Rightarrow> (Inr None, st')
                | Some abbr \<Rightarrow>
                    (let left = ex_start ep;
                         right = ex_start ep
                     in case (if opt_type opts = Some ''stylesheet''
                              then getCssSnippet eng abbr
                              else getHtmlSnippet eng abbr) of
                          Inl e \<Rightarrow> (Inl e, st')
                        | Inr textResult \<Rightarrow>
                            (Inr (Some (buildCompletionItem abbr textResult
                                          (buildRange linenr left right))), st')))))"

definition getCompeletionItem ::
  "('c, 'm, 's) emmet \<Rightarrow> nat \<Rightarrow> string \<Rightarrow> nat \<Rightarrow> extract_opts option \<Rightarrow> server_state \<Rightarrow>
   (completion_item option) outcome" where
  "getCompeletionItem eng linenr ln char opts =
     try_catch (getCompeletionItem_body eng linenr ln char (opts_or_empty opts))
       (\<lambda>e st. (Inr None, console_log (''ERR: '' @ error_text e) st))"

section \<open>The completion request\<close>

text \<open>
  \<^verbatim>\<open>content.split(/\r?\n/g)\<close>: the text is cut at every line feed, and a carriage
  return directly before the line feed belongs to the cut. The result is never empty.
  \<open>cur\<close> holds the characters of the piece being read, last first.
\<close>

fun split_from :: "string \<Rightarrow> string \<Rightarrow> string list" where
  "split_from cur [] = [rev cur]"
| "split_from cur (c # cs) =
     (if c = CHR 0x0A then rev cur # split_from [] cs
      else if c = CHR 0x0D \<and> cs \<noteq> [] \<and> hd cs = CHR 0x0A then rev cur # split_from [] (tl cs)
      else split_from (c # cur) cs)"

definition split_lines :: "string \<Rightarrow> string list" where
  "split_lines content = split_from [] content"

text \<open>
  \<^verbatim>\<open>String(xs[i])\<close>: an index past the end reads \<^verbatim>\<open>undefined\<close>, and
  \<^verbatim>\<open>String(undefined)\<close> is the nine letters \<^verbatim>\<open>undefined\<close>.
\<close>

definition index_or_undefined :: "'a list \<Rightarrow> nat \<Rightarrow> 'a option" where
  "index_or_undefined xs i = (if i < length xs then Some (xs ! i) else None)"

definition String_of :: "string option \<Rightarrow> string" where
  "String_of v = (case v of None \<Rightarrow> ''undefined'' | Some s \<Rightarrow> s)"

text \<open>
  One of the two \<^verbatim>\<open>if\<close> blocks of the handler:
  \<^verbatim>\<open>if (filetypes.indexOf(languageId) != -1) { let completionItem = ...; if (completionItem) result.push(completionItem) }\<close>.
\<close>

definition attempt ::
  "('c, 'm, 's) emmet \<Rightarrow> string list \<Rightarrow> string \<Rightarrow> nat \<Rightarrow> string \<Rightarrow> nat \<Rightarrow> extract_opts option \<Rightarrow>
   completion_item list \<Rightarrow> server_state \<Rightarrow> (completion_item list) outcome" where
  "attempt eng filetypes lang linenr ln char opts result st =
     (if lang \<in> set filetypes
      then (case getCompeletionItem eng linenr ln char opts st of
              (Inl e, st') \<Rightarrow> (Inl e, st')
            | (Inr None, st') \<Rightarrow> (Inr result, st')
            | (Inr (Some completionItem), st') \<Rightarrow> (Inr (result @ [completionItem]), st'))
      else (Inr result, st))"

text \<open>The body of the \<^verbatim>\<open>try\<close> block of the completion handler.\<close>

definition onCompletion_body ::
  "('c, 'm, 's) emmet \<Rightarrow> text_document_position_params \<Rightarrow> server_state \<Rightarrow>
   (completion_item list) outcome" where
  "onCompletion_body eng params st =
     (case documents st (uri (textDocument params)) of
        None \<Rightarrow> (Inl (Thrown ''failed to find document''), st)
      | Some docs \<Rightarrow>
          (let lang = languageId docs;
               content = getText docs;
               linenr = line (position params);
               ln = String_of (index_or_undefined (split_lines content) linenr);
               char = character (position params);
               result = []
           in case attempt eng (html_filetypes (globalSettings st)) lang linenr ln char None result st of
                (Inl e, st1) \<Rightarrow> (Inl e, st1)
              | (Inr result1, st1) \<Rightarrow>
                  attempt eng (css_filetypes (globalSettings st1)) lang linenr ln char
                    (Some \<lparr>opt_type = Some ''stylesheet''\<rparr>) result1 st1))"

text \<open>
  \<^verbatim>\<open>connection.onCompletion\<close>: the body's result is returned; after the
  \<^verbatim>\<open>catch\<close> block the handler returns the empty array.
\<close>

definition onCompletion ::
  "('c, 'm, 's) emmet \<Rightarrow> text_document_position_params \<Rightarrow> server_state \<Rightarrow>
   (completion_item list) outcome" where
  "onCompletion eng params =
     try_catch (onCompletion_body eng params)
       (\<lambda>e st. (Inr [], console_log (''ERR: '' @ error_text e) st))"

section \<open>The messages the server handles\<close>

text \<open>
  One constructor for each handler the file installs. \<open>dispatch\<close> gives the state after
  the handler has run; the transport passes one message at a time.
\<close>

datatype server_event =
    Initialize initialize_params
  | Initialized
  | DidChangeWorkspaceFolders
  | DidChangeConfiguration settings
  | DidClose string
  | Completion text_document_position_params

definition dispatch :: "('c, 'm, 's) emmet \<Rightarrow> server_event \<Rightarrow> server_state \<Rightarrow> server_state" where
  "dispatch eng ev st =
     (case ev of
        Initialize params \<Rightarrow> snd (onInitialize params st)
      | Initialized \<Rightarrow> onInitialized st
      | DidChangeWorkspaceFolders \<Rightarrow> onDidChangeWorkspaceFolders st
      | DidChangeConfiguration change_settings \<Rightarrow> onDidChangeConfiguration change_settings st
      | DidClose document_uri \<Rightarrow> onDidClose document_uri st
      | Completion params \<Rightarrow> snd (onCompletion eng params st))"

section \<open>The preview text of the specification\<close>

text \<open>
  The specification (section 4.4) describes a preview text: the expansion computed with
  the placeholder hook left unset. The source has no function for it; this definition
  follows the specification's words, for comparison with what \<open>buildCompletionItem\<close>
  stores as documentation.
\<close>

definition spec_previewText :: "('c, 'm, 's) emmet \<Rightarrow> extract_opts \<Rightarrow> string \<Rightarrow> error + string" where
  "spec_previewText eng opts abbr =
     (if opt_type opts = Some ''stylesheet''
      then and_then (resolveConfig eng \<lparr>config_type = Some ''stylesheet'', output_field = None\<rparr>)
             (\<lambda>cfg. and_then (parseStylesheet eng abbr cfg) (\<lambda>t. stringifyStylesheet eng t cfg))
      else and_then (resolveConfig eng \<lparr>config_type = None, output_field = None\<rparr>)
             (\<lambda>cfg. and_then (parseMarkup eng abbr cfg) (\<lambda>t. stringifyMarkup eng t cfg)))"

section \<open>A small engine for running the handlers\<close>

text \<open>
  An instance of the engine's interface, used to run the handlers on concrete requests.
  Its scanner takes the characters before the cursor back to the last blank and throws
  when the cursor is past the end of the line; its markup parser rejects \<open>!\<close> and its
  stylesheet parser rejects \<open>>\<close>; both serialisers emit one field, through the
  configured hook or, when none is configured, as the bare placeholder.
\<close>

definition demo_extract :: "string \<Rightarrow> nat \<Rightarrow> extract_opts \<Rightarrow> error + extracted_abbreviation option" where
  "demo_extract ln char opts =
     (if length ln < char then Inl (Thrown ''Error: position past the end of the line'')
      else
        (let abbr = rev (takeWhile (\<lambda>c. c \<noteq> CHR '' '') (rev (take char ln)))
         in if abbr = [] then Inr None
            else Inr (Some \<lparr>abbreviation = Some abbr,
                            location = char - length abbr,
                            ex_start = char - length abbr,
                            ex_end = char\<rparr>)))"

definition demo_field :: "user_config \<Rightarrow> nat \<Rightarrow> string \<Rightarrow> string" where
  "demo_field cfg = (case output_field cfg of None \<Rightarrow> (\<lambda>index placeholder. placeholder) | Some f \<Rightarrow> f)"

definition demo_engine :: "(user_config, string, string) emmet" where
  "demo_engine =
     \<lparr>extract = demo_extract,
      resolveConfig = (\<lambda>cfg. Inr cfg),
      parseMarkup = (\<lambda>abbr cfg.
         if CHR ''!'' \<in> set abbr then Inl (Thrown ''Error: unexpected character'') else Inr abbr),
      stringifyMarkup = (\<lambda>t cfg. Inr (''<'' @ t @ ''>'' @ demo_field cfg 1 [] @ ''</'' @ t @ ''>'')),
      parseStylesheet = (\<lambda>abbr cfg.
         if CHR ''>'' \<in> set abbr then Inl (Thrown ''Error: unexpected character'') else Inr abbr),
      stringifyStylesheet = (\<lambda>t cfg. Inr (t @ '': '' @ demo_field cfg 1 [] @ '';''))\<rparr>"

text \<open>A document of two lines, for a language routed to both grammars.\<close>

definition demo_document :: text_document where
  "demo_document =
     \<lparr>doc_uri = ''file:///a.vue'', languageId = ''vue'',
      getText = ''<p>'' @ [CHR 0x0D, CHR 0x0A] @ ''  ul!li x>y m10''\<rparr>"

definition demo_state :: server_state where
  "demo_state =
     (initial_state [''file:///a.vue'' \<mapsto> demo_document])
       \<lparr>hasConfigurationCapability := True,
        globalSettings := \<lparr>html_filetypes = [''html'', ''vue''], css_filetypes = [''css'', ''vue'']\<rparr>\<rparr>"

definition demo_request :: "string \<Rightarrow> nat \<Rightarrow> nat \<Rightarrow> text_document_position_params" where
  "demo_request document_uri linenr char =
     \<lparr>textDocument = \<lparr>uri = document_uri\<rparr>, position = \<lparr>line = linenr, character = char\<rparr>\<rparr>"

section \<open>Notions used in the statements\<close>

text \<open>
  What \<^verbatim>\<open>if (completionItem) { result.push(completionItem) }\<close> appends for a result
  of \<open>getCompeletionItem\<close>.
\<close>

definition items_of :: "error + completion_item option \<Rightarrow> completion_item list" where
  "items_of r = (case r of Inl e \<Rightarrow> [] | Inr None \<Rightarrow> [] | Inr (Some completionItem) \<Rightarrow> [completionItem])"

text \<open>The line the handler passes on: \<^verbatim>\<open>String(content.split(/\r?\n/g)[linenr])\<close>.\<close>

definition requested_line :: "text_document \<Rightarrow> text_document_position_params \<Rightarrow> string" where
  "requested_line docs params =
     String_of (index_or_undefined (split_lines (getText docs)) (line (position params)))"

text \<open>The text both snippet functions compute for an abbreviation, chosen as the source does.\<close>

definition render :: "('c, 'm, 's) emmet \<Rightarrow> extract_opts \<Rightarrow> string \<Rightarrow> error + string" where
  "render eng opts abbr =
     (if opt_type opts = Some ''stylesheet'' then getCssSnippet eng abbr else getHtmlSnippet eng abbr)"

text \<open>The state after \<open>call_extract\<close>.\<close>

definition scanned :: "string \<Rightarrow> nat \<Rightarrow> extract_opts \<Rightarrow> server_state \<Rightarrow> server_state" where
  "scanned ln char opts st = st\<lparr>extract_calls := extract_calls st @ [(ln, char, opts)]\<rparr>"

definition stylesheet_opts :: extract_opts where
  "stylesheet_opts = \<lparr>opt_type = Some ''stylesheet''\<rparr>"

definition markup_opts :: extract_opts where
  "markup_opts = \<lparr>opt_type = None\<rparr>"

section \<open>What the handlers compute\<close>

text \<open>
  \<open>getCompeletionItem\<close> with its \<^verbatim>\<open>try\<close> and \<^verbatim>\<open>catch\<close> unfolded: one branch for
  each way through the function.
\<close>

lemma getCompeletionItem_eq:
  "getCompeletionItem eng linenr ln char opts st =
     (case extract eng ln char (opts_or_empty opts) of
        Inl e \<Rightarrow> (Inr None, console_log (''ERR: '' @ error_text e) (scanned ln char (opts_or_empty opts) st))
      | Inr None \<Rightarrow> (Inr None, scanned ln char (opts_or_empty opts) st)
      | Inr (Some ep) \<Rightarrow>
          (case abbreviation ep of
             None \<Rightarrow> (Inr None, scanned ln char (opts_or_empty opts) st)
           | Some abbr \<Rightarrow>
               (case render eng (opts_or_empty opts) abbr of
                  Inl e \<Rightarrow> (Inr None, console_log (''ERR: '' @ error_text e) (scanned ln char (opts_or_empty opts) st))
                | Inr textResult \<Rightarrow>
                    (Inr (Some (buildCompletionItem abbr textResult
                                  (buildRange linenr (ex_start ep) (ex_start ep)))),
                     scanned ln char (opts_or_empty opts) st))))"
  by (simp add: getCompeletionItem_def getCompeletionItem_body_def try_catch_def call_extract_def
        render_def scanned_def Let_def split: sum.splits option.splits)

lemma getCompeletionItem_returns:
  "\<exists>r. fst (getCompeletionItem eng linenr ln char opts st) = Inr r"
  by (simp add: getCompeletionItem_eq split: sum.splits option.splits)

lemma getCompeletionItem_fst_any_state:
  "fst (getCompeletionItem eng linenr ln char opts st) = fst (getCompeletionItem eng linenr ln char opts st')"
  by (simp add: getCompeletionItem_eq split: sum.splits option.splits)

lemma getCompeletionItem_extract_calls:
  "extract_calls (snd (getCompeletionItem eng linenr ln char opts st)) =
     extract_calls st @ [(ln, char, opts_or_empty opts)]"
  by (simp add: getCompeletionItem_eq scanned_def console_log_def split: sum.splits option.splits)

lemma getCompeletionItem_frame:
  "globalSettings (snd (getCompeletionItem eng linenr ln char opts st)) = globalSettings st"
  "documentSettings (snd (getCompeletionItem eng linenr ln char opts st)) = documentSettings st"
  "documents (snd (getCompeletionItem eng linenr ln char opts st)) = documents st"
  "hasConfigurationCapability (snd (getCompeletionItem eng linenr ln char opts st)) = hasConfigurationCapability st"
  by (simp_all add: getCompeletionItem_eq scanned_def console_log_def split: sum.splits option.splits)

lemma attempt_eq:
  "attempt eng filetypes lang linenr ln char opts result st =
     (if lang \<in> set filetypes
      then (Inr (result @ items_of (fst (getCompeletionItem eng linenr ln char opts st))),
            snd (getCompeletionItem eng linenr ln char opts st))
      else (Inr result, st))"
  using getCompeletionItem_returns [of eng linenr ln char opts st]
  by (auto simp: attempt_def items_of_def split: prod.splits sum.splits option.splits)

lemma onCompletion_missing:
  "documents st (uri (textDocument params)) = None \<Longrightarrow>
   onCompletion eng params st = (Inr [], console_log ''ERR: failed to find document'' st)"
  by (simp add: onCompletion_def onCompletion_body_def try_catch_def)

lemma onCompletion_found:
  assumes "documents st (uri (textDocument params)) = Some docs"
  shows "onCompletion eng params st =
     (let lang = languageId docs;
          linenr = line (position params);
          ln = requested_line docs params;
          char = character (position params);
          first = attempt eng (html_filetypes (globalSettings st)) lang linenr ln char None [] st
      in attempt eng (css_filetypes (globalSettings st)) lang linenr ln char (Some stylesheet_opts)
           (projr (fst first)) (snd first))"
  using assms
  by (simp add: onCompletion_def onCompletion_body_def try_catch_def requested_line_def
        stylesheet_opts_def attempt_eq getCompeletionItem_frame Let_def)

section \<open>Settings: global configuration changes\<close>

text \<open>
  C6. Handling a configuration-change notification replaces the process-wide settings
  with the pushed value and leaves every entry of the per-document settings cache as it
  was; the same holds when the notification arrives through the dispatcher.
\<close>

theorem configuration_change_replaces_global_settings_only:
  "globalSettings (onDidChangeConfiguration pushed st) = pushed \<and>
   documentSettings (onDidChangeConfiguration pushed st) = documentSettings st \<and>
   globalSettings (dispatch eng (DidChangeConfiguration pushed) st) = pushed \<and>
   documentSettings (dispatch eng (DidChangeConfiguration pushed) st) = documentSettings st"
  by (simp add: onDidChangeConfiguration_def dispatch_def)

section \<open>Settings: the per-document cache\<close>

lemma onCompletion_documentSettings:
  "documentSettings (snd (onCompletion eng params st)) = documentSettings st"
proof (cases "documents st (uri (textDocument params))")
  case None
  then show ?thesis by (simp add: onCompletion_missing console_log_def)
next
  case (Some docs)
  then show ?thesis
    by (simp add: onCompletion_found attempt_eq getCompeletionItem_frame Let_def)
qed

lemma onInitialize_documentSettings:
  "documentSettings (snd (onInitialize params st)) = documentSettings st"
  by (simp add: onInitialize_def Let_def)

lemma getDocumentSettings_inserts:
  "hasConfigurationCapability st \<Longrightarrow> documentSettings st resource = None \<Longrightarrow>
   documentSettings (snd (getDocumentSettings resource st)) resource =
     Some (ConfigurationRequest resource ''languageServerExample'')"
  by (simp add: getDocumentSettings_def Let_def)

text \<open>
  C5, as the specification states it, fails: a completion request creates no cache entry.
  Here the per-scope configuration capability is present, the document is open, its
  identifier has no entry, and after the first completion request it still has none.
\<close>

theorem completion_creates_no_cache_entry:
  "hasConfigurationCapability demo_state \<and>
   documents demo_state ''file:///a.vue'' = Some demo_document \<and>
   documentSettings demo_state ''file:///a.vue'' = None \<and>
   documentSettings (snd (onCompletion demo_engine (demo_request ''file:///a.vue'' 1 15) demo_state))
     ''file:///a.vue'' = None"
  by (simp add: onCompletion_documentSettings demo_state_def initial_state_def)

text \<open>
  C5, amended. No handler creates an entry of the per-document settings cache: a
  completion request leaves the cache as it was. For every document identifier, the
  entry is removed exactly when the close notification for that identifier is handled,
  and no other message changes it. Closing an identifier that has no entry changes
  nothing.
\<close>

theorem document_settings_cache_lifecycle:
  "documentSettings (snd (onCompletion eng params st)) = documentSettings st \<and>
   documentSettings (dispatch eng ev st) document_uri =
     (if ev = DidClose document_uri then None else documentSettings st document_uri) \<and>
   (documentSettings st document_uri = None \<longrightarrow> onDidClose document_uri st = st)"
proof (intro conjI impI)
  show "documentSettings (snd (onCompletion eng params st)) = documentSettings st"
    by (rule onCompletion_documentSettings)
  show "documentSettings (dispatch eng ev st) document_uri =
     (if ev = DidClose document_uri then None else documentSettings st document_uri)"
    by (cases ev)
      (simp_all add: dispatch_def onInitialize_documentSettings onInitialized_def
        onDidChangeWorkspaceFolders_def console_log_def onDidChangeConfiguration_def
        onDidClose_def onCompletion_documentSettings)
  assume "documentSettings st document_uri = None"
  then have "(documentSettings st)(document_uri := None) = documentSettings st"
    by (simp add: fun_upd_idem)
  then show "onDidClose document_uri st = st"
    by (simp add: onDidClose_def)
qed

theorem document_settings_cache_lifecycle_witness:
  "documentSettings demo_state ''file:///b.vue'' = None \<and>
   onDidClose ''file:///b.vue'' demo_state = demo_state \<and>
   documentSettings
     (dispatch demo_engine (DidClose ''file:///a.vue'')
        (demo_state\<lparr>documentSettings := [''file:///a.vue'' \<mapsto> Resolved defaultSettings]\<rparr>))
     ''file:///a.vue'' = None"
proof -
  have absent: "documentSettings demo_state ''file:///b.vue'' = None"
    by (simp add: demo_state_def initial_state_def)
  from document_settings_cache_lifecycle [of demo_engine "demo_request ''file:///b.vue'' 0 0" demo_state "DidClose ''file:///b.vue''" "''file:///b.vue''"] absent
  have noop: "onDidClose ''file:///b.vue'' demo_state = demo_state"
    by blast
  from document_settings_cache_lifecycle [of demo_engine "demo_request ''file:///a.vue'' 0 0"
       "demo_state\<lparr>documentSettings := [''file:///a.vue'' \<mapsto> Resolved defaultSettings]\<rparr>"
       "DidClose ''file:///a.vue''" "''file:///a.vue''"]
  have removed: "documentSettings
     (dispatch demo_engine (DidClose ''file:///a.vue'')
        (demo_state\<lparr>documentSettings := [''file:///a.vue'' \<mapsto> Resolved defaultSettings]\<rparr>))
     ''file:///a.vue'' = None"
    by simp
  from absent noop removed show ?thesis by blast
qed

section \<open>Initialisation: the trigger characters\<close>

lemma lower_chars: "(97 \<le> (of_char c :: nat) \<and> of_char c \<le> (122::nat)) = (c \<in> set ''abcdefghijklmnopqrstuvwxyz'')"
  by (cases c) simp


lemma digit_chars: "(48 \<le> (of_char c :: nat) \<and> of_char c \<le> (57::nat)) = (c \<in> set ''0123456789'')"
  by (cases c) simp

lemma singleton_strings:
  "{[c] |c. c \<in> A \<or> c \<in> B \<or> c \<in> C} = (\<lambda>c. [c]) ` (A \<union> B \<union> C)"
  by auto

lemma onInitialize_triggerCharacters:
  "triggerCharacters_option (completionProvider (result_capabilities (fst (onInitialize params st)))) =
     triggerCharacters"
  by (simp add: onInitialize_def Let_def)

text \<open>
  C9, as the specification states it, fails: \<open>A\<close> is a letter and is not among the
  trigger characters the initialisation result advertises.
\<close>

theorem uppercase_letter_is_no_trigger_character:
  "''A'' \<notin> set (triggerCharacters_option (completionProvider (result_capabilities (fst
      (onInitialize \<lparr>capabilities = \<lparr>workspace = None, textDocument_capabilities = None\<rparr>\<rparr>
         (initial_state Map.empty))))))"
  by (simp add: onInitialize_triggerCharacters triggerCharacters_def)

text \<open>
  C9, amended. The initialisation result advertises as trigger characters exactly the
  one-character strings whose character is one of the eight punctuation characters
  \<open>> ) ] } @ * $ +\<close>, a lower-case letter \<open>a\<close> to \<open>z\<close> (codes 97 to 122) or a
  digit \<open>0\<close> to \<open>9\<close> (codes 48 to 57): 44 strings, none listed twice.
\<close>

theorem trigger_characters_advertised:
  "set (triggerCharacters_option (completionProvider (result_capabilities (fst (onInitialize params st))))) =
     {[c] |c. c \<in> set ''>)]}@*$+'' \<or>
              (97 \<le> (of_char c :: nat) \<and> (of_char c :: nat) \<le> 122) \<or>
              (48 \<le> (of_char c :: nat) \<and> (of_char c :: nat) \<le> 57)} \<and>
   distinct (triggerCharacters_option (completionProvider (result_capabilities (fst (onInitialize params st))))) \<and>
   length (triggerCharacters_option (completionProvider (result_capabilities (fst (onInitialize params st))))) = 44"
proof (intro conjI)
  have punct: "set [''>'', '')'', '']'', ''}'', ''@'', ''*'', ''$'', ''+''] = (\<lambda>c. [c]) ` set ''>)]}@*$+''"
    by simp
  have "set triggerCharacters =
     (\<lambda>c. [c]) ` (set ''>)]}@*$+'' \<union> set ''abcdefghijklmnopqrstuvwxyz'' \<union> set ''0123456789'')"
    by (simp only: triggerCharacters_def set_append set_map image_Un punct Un_assoc)
  also have "\<dots> = {[c] |c. c \<in> set ''>)]}@*$+'' \<or> c \<in> set ''abcdefghijklmnopqrstuvwxyz'' \<or> c \<in> set ''0123456789''}"
    by (rule singleton_strings [symmetric])
  finally have "set triggerCharacters =
     {[c] |c. c \<in> set ''>)]}@*$+'' \<or> c \<in> set ''abcdefghijklmnopqrstuvwxyz'' \<or> c \<in> set ''0123456789''}" .
  then show "set (triggerCharacters_option (completionProvider (result_capabilities (fst (onInitialize params st))))) =
     {[c] |c. c \<in> set ''>)]}@*$+'' \<or>
              (97 \<le> (of_char c :: nat) \<and> (of_char c :: nat) \<le> 122) \<or>
              (48 \<le> (of_char c :: nat) \<and> (of_char c :: nat) \<le> 57)}"
    by (simp only: onInitialize_triggerCharacters lower_chars digit_chars)
  show "distinct (triggerCharacters_option (completionProvider (result_capabilities (fst (onInitialize params st)))))"
    by (simp add: onInitialize_triggerCharacters triggerCharacters_def)
  show "length (triggerCharacters_option (completionProvider (result_capabilities (fst (onInitialize params st))))) = 44"
    by (simp add: onInitialize_triggerCharacters triggerCharacters_def)
qed

section \<open>Rendering: the placeholder hook\<close>



section \<open>The completion request, for a document that is open\<close>

lemma getCompeletionItem_item:
  assumes "fst (getCompeletionItem eng linenr ln char opts st) = Inr (Some item)"
  shows "\<exists>ep abbr textResult.
           extract eng ln char (opts_or_empty opts) = Inr (Some ep) \<and>
           abbreviation ep = Some abbr \<and>
           render eng (opts_or_empty opts) abbr = Inr textResult \<and>
           item = buildCompletionItem abbr textResult (buildRange linenr (ex_start ep) (ex_start ep))"
  using assms
  by (auto simp: getCompeletionItem_eq split: sum.splits option.splits)

lemma onCompletion_items:
  assumes "documents st (uri (textDocument params)) = Some docs"
  shows "fst (onCompletion eng params st) =
     Inr ((if languageId docs \<in> set (html_filetypes (globalSettings st))
           then items_of (fst (getCompeletionItem eng (line (position params))
                  (requested_line docs params) (character (position params)) None st))
           else []) @
          (if languageId docs \<in> set (css_filetypes (globalSettings st))
           then items_of (fst (getCompeletionItem eng (line (position params))
                  (requested_line docs params) (character (position params)) (Some stylesheet_opts) st))
           else []))"
proof -
  let ?first = "getCompeletionItem eng (line (position params))
                  (requested_line docs params) (character (position params)) None st"
  have same: "fst (getCompeletionItem eng (line (position params)) (requested_line docs params)
                (character (position params)) (Some stylesheet_opts) (snd ?first)) =
              fst (getCompeletionItem eng (line (position params)) (requested_line docs params)
                (character (position params)) (Some stylesheet_opts) st)"
    by (rule getCompeletionItem_fst_any_state)
  show ?thesis
    using assms same by (simp add: onCompletion_found attempt_eq Let_def)
qed

lemma onCompletion_extract_calls:
  assumes "documents st (uri (textDocument params)) = Some docs"
  shows "extract_calls (snd (onCompletion eng params st)) =
     extract_calls st @
     (if languageId docs \<in> set (html_filetypes (globalSettings st))
      then [(requested_line docs params, character (position params), markup_opts)] else []) @
     (if languageId docs \<in> set (css_filetypes (globalSettings st))
      then [(requested_line docs params, character (position params), stylesheet_opts)] else [])"
  using assms
  by (simp add: onCompletion_found attempt_eq getCompeletionItem_extract_calls Let_def
        opts_or_empty_def markup_opts_def)

lemma items_of_member:
  "item \<in> set (items_of r) \<Longrightarrow> r = Inr (Some item)"
  by (auto simp: items_of_def split: sum.splits option.splits)

lemma length_items_of: "length (items_of r) \<le> 1"
  by (simp add: items_of_def split: sum.splits option.splits)

section \<open>The small engine on the two-line document\<close>

lemmas demo_engine_simps =
  demo_engine_def demo_extract_def demo_field_def opts_or_empty_def stylesheet_opts_def
  markup_opts_def render_def getHtmlSnippet_def getCssSnippet_def and_then_def field_hook_def
  spec_previewText_def Let_def

lemma demo_found:
  "documents demo_state (uri (textDocument (demo_request ''file:///a.vue'' linenr char))) = Some demo_document"
  by (simp add: demo_state_def initial_state_def demo_request_def)

lemma demo_routed:
  "languageId demo_document \<in> set (html_filetypes (globalSettings demo_state))"
  "languageId demo_document \<in> set (css_filetypes (globalSettings demo_state))"
  by (simp_all add: demo_state_def initial_state_def demo_document_def)

lemma demo_lines:
  "split_lines (getText demo_document) = [''<p>'', ''  ul!li x>y m10'']"
  by (simp add: demo_document_def split_lines_def)

lemma demo_line_1:
  "requested_line demo_document (demo_request document_uri 1 char) = ''  ul!li x>y m10''"
  by (simp add: requested_line_def demo_lines demo_request_def index_or_undefined_def String_of_def)

lemma demo_position:
  "line (position (demo_request document_uri linenr char)) = linenr"
  "character (position (demo_request document_uri linenr char)) = char"
  by (simp_all add: demo_request_def)

lemma demo_markup_at_11:
  "fst (getCompeletionItem demo_engine linenr ''  ul!li x>y m10'' 11 None st) =
     Inr (Some (buildCompletionItem ''x>y'' ''<x>y>${1}</x>y>'' (buildRange linenr 8 8)))"
  by (simp add: getCompeletionItem_eq demo_engine_simps)

lemma demo_stylesheet_at_11:
  "getCompeletionItem demo_engine linenr ''  ul!li x>y m10'' 11 (Some stylesheet_opts) st =
     (Inr None, console_log ''ERR: Error: unexpected character''
                  (scanned ''  ul!li x>y m10'' 11 stylesheet_opts st))"
  by (simp add: getCompeletionItem_eq demo_engine_simps)

section \<open>The replacement range\<close>

text \<open>
  C1. Every item a completion request returns was built from an abbreviation the scanner
  found on the requested line, and the range of its text edit starts and ends at that
  abbreviation's start offset, on the request's line: the end is the start offset, not
  the cursor.
\<close>

theorem replacement_range_is_empty_at_abbreviation_start:
  assumes "fst (onCompletion eng params st) = Inr items" and "item \<in> set items"
  shows "\<exists>docs opts ep.
           documents st (uri (textDocument params)) = Some docs \<and>
           (opts = markup_opts \<or> opts = stylesheet_opts) \<and>
           extract eng (requested_line docs params) (character (position params)) opts = Inr (Some ep) \<and>
           start (range (textEdit item)) = \<lparr>line = line (position params), character = ex_start ep\<rparr> \<and>
           end' (range (textEdit item)) = \<lparr>line = line (position params), character = ex_start ep\<rparr>"
proof (cases "documents st (uri (textDocument params))")
  case None
  with assms show ?thesis by (simp add: onCompletion_missing)
next
  case (Some docs)
  let ?attempt = "\<lambda>opts. fst (getCompeletionItem eng (line (position params))
                      (requested_line docs params) (character (position params)) opts st)"
  from assms onCompletion_items [OF Some, of eng]
  have "item \<in> set (items_of (?attempt None)) \<or> item \<in> set (items_of (?attempt (Some stylesheet_opts)))"
    by (auto split: if_splits)
  then have "?attempt None = Inr (Some item) \<or> ?attempt (Some stylesheet_opts) = Inr (Some item)"
    by (blast dest: items_of_member)
  moreover have "opts_or_empty None = markup_opts"
    by (simp add: opts_or_empty_def markup_opts_def)
  moreover have "opts_or_empty (Some stylesheet_opts) = stylesheet_opts"
    by (simp add: opts_or_empty_def)
  ultimately obtain opts where
    grammar: "opts_or_empty opts = markup_opts \<or> opts_or_empty opts = stylesheet_opts" and
    item: "?attempt opts = Inr (Some item)"
    by blast
  from getCompeletionItem_item [OF item]
  obtain ep abbr textResult where
    "extract eng (requested_line docs params) (character (position params)) (opts_or_empty opts) = Inr (Some ep)"
    "item = buildCompletionItem abbr textResult
              (buildRange (line (position params)) (ex_start ep) (ex_start ep))"
    by blast
  with Some grammar show ?thesis
    by (auto simp: buildCompletionItem_def buildRange_def)
qed

theorem replacement_range_is_empty_at_abbreviation_start_witness:
  "fst (onCompletion demo_engine (demo_request ''file:///a.vue'' 1 11) demo_state) =
     Inr [buildCompletionItem ''x>y'' ''<x>y>${1}</x>y>'' (buildRange 1 8 8)] \<and>
   (\<exists>docs opts ep.
      documents demo_state (uri (textDocument (demo_request ''file:///a.vue'' 1 11))) = Some docs \<and>
      (opts = markup_opts \<or> opts = stylesheet_opts) \<and>
      extract demo_engine (requested_line docs (demo_request ''file:///a.vue'' 1 11))
        (character (position (demo_request ''file:///a.vue'' 1 11))) opts = Inr (Some ep) \<and>
      start (range (textEdit (buildCompletionItem ''x>y'' ''<x>y>${1}</x>y>'' (buildRange 1 8 8)))) =
        \<lparr>line = line (position (demo_request ''file:///a.vue'' 1 11)), character = ex_start ep\<rparr> \<and>
      end' (range (textEdit (buildCompletionItem ''x>y'' ''<x>y>${1}</x>y>'' (buildRange 1 8 8)))) =
        \<lparr>line = line (position (demo_request ''file:///a.vue'' 1 11)), character = ex_start ep\<rparr>) \<and>
   range (textEdit (buildCompletionItem ''x>y'' ''<x>y>${1}</x>y>'' (buildRange 1 8 8))) =
     \<lparr>start = \<lparr>line = 1, character = 8\<rparr>, end' = \<lparr>line = 1, character = 8\<rparr>\<rparr> \<and>
   character (position (demo_request ''file:///a.vue'' 1 11)) = 11"
proof -
  let ?item = "buildCompletionItem ''x>y'' ''<x>y>${1}</x>y>'' (buildRange 1 8 8)"
  have run: "fst (onCompletion demo_engine (demo_request ''file:///a.vue'' 1 11) demo_state) = Inr [?item]"
    by (simp only: onCompletion_items [OF demo_found] demo_routed demo_line_1 demo_position
          demo_markup_at_11 demo_stylesheet_at_11 fst_conv items_of_def if_True
          sum.case option.case append.simps)
  have mem: "?item \<in> set [?item]" by simp
  have concrete: "range (textEdit ?item) =
     \<lparr>start = \<lparr>line = 1, character = 8\<rparr>, end' = \<lparr>line = 1, character = 8\<rparr>\<rparr>"
    by (simp add: buildCompletionItem_def buildRange_def)
  have cursor: "character (position (demo_request ''file:///a.vue'' 1 11)) = 11"
    by (simp add: demo_request_def)
  from run replacement_range_is_empty_at_abbreviation_start [OF run mem] concrete cursor
  show ?thesis by blast
qed

section \<open>The request never faults\<close>

text \<open>
  C2. The completion handler always returns a list: whatever the body of its
  \<^verbatim>\<open>try\<close> block throws is written to the console and answered with the empty list.
  A document the synchronisation layer does not know is such a case.
\<close>

theorem completion_always_replies:
  "(\<exists>items st'. onCompletion eng params st = (Inr items, st')) \<and>
   (documents st (uri (textDocument params)) = None \<longrightarrow>
      onCompletion eng params st = (Inr [], console_log ''ERR: failed to find document'' st)) \<and>
   (onCompletion_body eng params st = (Inl e, st1) \<longrightarrow>
      onCompletion eng params st = (Inr [], console_log (''ERR: '' @ error_text e) st1))"
proof (intro conjI impI)
  show "\<exists>items st'. onCompletion eng params st = (Inr items, st')"
    by (cases "onCompletion_body eng params st"; cases "fst (onCompletion_body eng params st)")
       (auto simp: onCompletion_def try_catch_def)
  show "onCompletion eng params st = (Inr [], console_log ''ERR: failed to find document'' st)"
    if "documents st (uri (textDocument params)) = None"
    using that by (rule onCompletion_missing)
  show "onCompletion eng params st = (Inr [], console_log (''ERR: '' @ error_text e) st1)"
    if "onCompletion_body eng params st = (Inl e, st1)"
    using that by (simp add: onCompletion_def try_catch_def)
qed

theorem completion_always_replies_witness:
  "documents demo_state (uri (textDocument (demo_request ''file:///b.vue'' 0 0))) = None \<and>
   onCompletion demo_engine (demo_request ''file:///b.vue'' 0 0) demo_state =
     (Inr [], demo_state\<lparr>console := [''ERR: failed to find document'']\<rparr>)"
proof -
  have missing: "documents demo_state (uri (textDocument (demo_request ''file:///b.vue'' 0 0))) = None"
    by (simp add: demo_state_def initial_state_def demo_request_def)
  from completion_always_replies [of demo_engine "demo_request ''file:///b.vue'' 0 0" demo_state] missing
  have "onCompletion demo_engine (demo_request ''file:///b.vue'' 0 0) demo_state =
          (Inr [], console_log ''ERR: failed to find document'' demo_state)"
    by blast
  moreover have "console_log ''ERR: failed to find document'' demo_state =
          demo_state\<lparr>console := [''ERR: failed to find document'']\<rparr>"
    by (simp add: console_log_def demo_state_def initial_state_def)
  ultimately show ?thesis using missing by simp
qed

section \<open>Errors of the engine stay inside the attempt\<close>

lemma onCompletion_body_found:
  assumes "documents st (uri (textDocument params)) = Some docs"
  shows "onCompletion_body eng params st = onCompletion eng params st"
    and "\<exists>items. fst (onCompletion_body eng params st) = Inr items"
  using assms
  by (simp_all add: onCompletion_def onCompletion_body_def try_catch_def attempt_eq Let_def)

lemma getHtmlSnippet_error:
  assumes "resolveConfig eng \<lparr>config_type = None, output_field = Some field_hook\<rparr> = Inr cfg"
      and "parseMarkup eng abbr cfg = Inl e \<or>
           (parseMarkup eng abbr cfg = Inr tree \<and> stringifyMarkup eng tree cfg = Inl e)"
  shows "getHtmlSnippet eng abbr = Inl e"
  using assms by (auto simp: getHtmlSnippet_def and_then_def)

lemma getCssSnippet_error:
  assumes "resolveConfig eng \<lparr>config_type = Some ''stylesheet'', output_field = Some field_hook\<rparr> = Inr cfg"
      and "parseStylesheet eng abbr cfg = Inl e \<or>
           (parseStylesheet eng abbr cfg = Inr tree \<and> stringifyStylesheet eng tree cfg = Inl e)"
  shows "getCssSnippet eng abbr = Inl e"
  using assms by (auto simp: getCssSnippet_def and_then_def)

lemma demo_markup_at_7:
  "getCompeletionItem demo_engine linenr ''  ul!li x>y m10'' 7 None st =
     (Inr None, console_log ''ERR: Error: unexpected character''
                  (scanned ''  ul!li x>y m10'' 7 markup_opts st))"
  by (simp add: getCompeletionItem_eq demo_engine_simps)

lemma demo_stylesheet_at_7:
  "fst (getCompeletionItem demo_engine linenr ''  ul!li x>y m10'' 7 (Some stylesheet_opts) st) =
     Inr (Some (buildCompletionItem ''ul!li'' ''ul!li: ${1};'' (buildRange linenr 2 2)))"
  by (simp add: getCompeletionItem_eq demo_engine_simps)

lemma demo_extract_at_7:
  "extract demo_engine ''  ul!li x>y m10'' 7 opts =
     Inr (Some \<lparr>abbreviation = Some ''ul!li'', location = 2, ex_start = 2, ex_end = 7\<rparr>)"
  by (simp add: demo_engine_simps)

lemma demo_extract_at_12:
  "extract demo_engine ''  ul!li x>y m10'' 12 opts = Inr None"
  by (simp add: demo_engine_simps)

lemma demo_extract_at_16:
  "extract demo_engine ''  ul!li x>y m10'' 16 opts = Inl (Thrown ''Error: position past the end of the line'')"
  by (simp add: demo_engine_simps)

lemma demo_parseMarkup_rejects:
  "resolveConfig demo_engine \<lparr>config_type = None, output_field = Some field_hook\<rparr> =
     Inr \<lparr>config_type = None, output_field = Some field_hook\<rparr>"
  "parseMarkup demo_engine ''ul!li'' cfg = Inl (Thrown ''Error: unexpected character'')"
  by (simp_all add: demo_engine_simps)

lemma demo_console_at_7:
  "console (snd (onCompletion demo_engine (demo_request ''file:///a.vue'' 1 7) demo_state)) =
     [''ERR: Error: unexpected character'']"
proof -
  have css: "snd (getCompeletionItem demo_engine linenr ''  ul!li x>y m10'' 7 (Some stylesheet_opts) st) =
               scanned ''  ul!li x>y m10'' 7 stylesheet_opts st" for linenr st
    by (simp add: getCompeletionItem_eq demo_engine_simps)
  have start: "console demo_state = []"
    by (simp add: demo_state_def initial_state_def)
  have "onCompletion demo_engine (demo_request ''file:///a.vue'' 1 7) demo_state =
          attempt demo_engine (css_filetypes (globalSettings demo_state)) (languageId demo_document)
            1 ''  ul!li x>y m10'' 7 (Some stylesheet_opts)
            (projr (fst (attempt demo_engine (html_filetypes (globalSettings demo_state))
                           (languageId demo_document) 1 ''  ul!li x>y m10'' 7 None [] demo_state)))
            (snd (attempt demo_engine (html_filetypes (globalSettings demo_state))
                    (languageId demo_document) 1 ''  ul!li x>y m10'' 7 None [] demo_state))"
    using onCompletion_found [OF demo_found [of 1 7], of demo_engine]
    by (simp only: Let_def demo_line_1 demo_position)
  then show ?thesis
    by (simp add: attempt_eq demo_routed demo_markup_at_7 css console_log_def scanned_def start)
qed

text \<open>
  C3. One attempt, \<open>getCompeletionItem\<close>, never throws. When the scanner throws, or the
  scanner finds an abbreviation and rendering it throws (the parser or the serialiser of
  the grammar threw), the attempt yields no item and the console afterwards is the
  console before with the one line \<open>ERR: \<close> and the error's text appended. When the
  scanner finds nothing, the attempt yields no item and the console is as before. In a request
  for an open document, each grammar contributes the item of its own attempt, whatever
  the other attempt did.
\<close>

theorem attempt_contains_engine_errors:
  "(\<exists>r st'. getCompeletionItem eng linenr ln char opts st = (Inr r, st')) \<and>
   (extract eng ln char (opts_or_empty opts) = Inl e \<longrightarrow>
      getCompeletionItem eng linenr ln char opts st =
        (Inr None, console_log (''ERR: '' @ error_text e) (scanned ln char (opts_or_empty opts) st)) \<and>
      console (snd (getCompeletionItem eng linenr ln char opts st)) =
        console st @ [''ERR: '' @ error_text e]) \<and>
   (extract eng ln char (opts_or_empty opts) = Inr (Some ep) \<and> abbreviation ep = Some abbr \<and>
    render eng (opts_or_empty opts) abbr = Inl e \<longrightarrow>
      getCompeletionItem eng linenr ln char opts st =
        (Inr None, console_log (''ERR: '' @ error_text e) (scanned ln char (opts_or_empty opts) st)) \<and>
      console (snd (getCompeletionItem eng linenr ln char opts st)) =
        console st @ [''ERR: '' @ error_text e]) \<and>
   (resolveConfig eng \<lparr>config_type = None, output_field = Some field_hook\<rparr> = Inr cfg \<and>
    (parseMarkup eng abbr cfg = Inl e \<or>
     (parseMarkup eng abbr cfg = Inr tree \<and> stringifyMarkup eng tree cfg = Inl e)) \<longrightarrow>
      render eng \<lparr>opt_type = None\<rparr> abbr = Inl e) \<and>
   (resolveConfig eng \<lparr>config_type = Some ''stylesheet'', output_field = Some field_hook\<rparr> = Inr cfg \<and>
    (parseStylesheet eng abbr cfg = Inl e \<or>
     (parseStylesheet eng abbr cfg = Inr sheet \<and> stringifyStylesheet eng sheet cfg = Inl e)) \<longrightarrow>
      render eng \<lparr>opt_type = Some ''stylesheet''\<rparr> abbr = Inl e) \<and>
   (extract eng ln char (opts_or_empty opts) = Inr None \<longrightarrow>
      getCompeletionItem eng linenr ln char opts st = (Inr None, scanned ln char (opts_or_empty opts) st) \<and>
      console (snd (getCompeletionItem eng linenr ln char opts st)) = console st) \<and>
   (documents st (uri (textDocument params)) = Some docs \<longrightarrow>
      fst (onCompletion eng params st) =
        Inr ((if languageId docs \<in> set (html_filetypes (globalSettings st))
              then items_of (fst (getCompeletionItem eng (line (position params))
                     (requested_line docs params) (character (position params)) None st))
              else []) @
             (if languageId docs \<in> set (css_filetypes (globalSettings st))
              then items_of (fst (getCompeletionItem eng (line (position params))
                     (requested_line docs params) (character (position params))
                     (Some stylesheet_opts) st))
              else [])))"
proof (intro conjI impI)
  show "\<exists>r st'. getCompeletionItem eng linenr ln char opts st = (Inr r, st')"
    using getCompeletionItem_returns [of eng linenr ln char opts st]
    by (cases "getCompeletionItem eng linenr ln char opts st") auto
  show "getCompeletionItem eng linenr ln char opts st =
        (Inr None, console_log (''ERR: '' @ error_text e) (scanned ln char (opts_or_empty opts) st))"
    if "extract eng ln char (opts_or_empty opts) = Inl e"
    using that by (simp add: getCompeletionItem_eq)
  show "getCompeletionItem eng linenr ln char opts st =
        (Inr None, console_log (''ERR: '' @ error_text e) (scanned ln char (opts_or_empty opts) st))"
    if "extract eng ln char (opts_or_empty opts) = Inr (Some ep) \<and> abbreviation ep = Some abbr \<and>
        render eng (opts_or_empty opts) abbr = Inl e"
    using that by (simp add: getCompeletionItem_eq)
  show "console (snd (getCompeletionItem eng linenr ln char opts st)) =
        console st @ [''ERR: '' @ error_text e]"
    if "extract eng ln char (opts_or_empty opts) = Inl e"
    using that by (simp add: getCompeletionItem_eq console_log_def scanned_def)
  show "console (snd (getCompeletionItem eng linenr ln char opts st)) =
        console st @ [''ERR: '' @ error_text e]"
    if "extract eng ln char (opts_or_empty opts) = Inr (Some ep) \<and> abbreviation ep = Some abbr \<and>
        render eng (opts_or_empty opts) abbr = Inl e"
    using that by (simp add: getCompeletionItem_eq console_log_def scanned_def)
  show "render eng \<lparr>opt_type = None\<rparr> abbr = Inl e"
    if "resolveConfig eng \<lparr>config_type = None, output_field = Some field_hook\<rparr> = Inr cfg \<and>
        (parseMarkup eng abbr cfg = Inl e \<or>
         (parseMarkup eng abbr cfg = Inr tree \<and> stringifyMarkup eng tree cfg = Inl e))"
    using that getHtmlSnippet_error [of eng cfg abbr e tree] by (simp add: render_def)
  show "render eng \<lparr>opt_type = Some ''stylesheet''\<rparr> abbr = Inl e"
    if "resolveConfig eng \<lparr>config_type = Some ''stylesheet'', output_field = Some field_hook\<rparr> = Inr cfg \<and>
        (parseStylesheet eng abbr cfg = Inl e \<or>
         (parseStylesheet eng abbr cfg = Inr sheet \<and> stringifyStylesheet eng sheet cfg = Inl e))"
    using that getCssSnippet_error [of eng cfg abbr e sheet] by (simp add: render_def)
  show "getCompeletionItem eng linenr ln char opts st = (Inr None, scanned ln char (opts_or_empty opts) st)"
    if "extract eng ln char (opts_or_empty opts) = Inr None"
    using that by (simp add: getCompeletionItem_eq)
  show "console (snd (getCompeletionItem eng linenr ln char opts st)) = console st"
    if "extract eng ln char (opts_or_empty opts) = Inr None"
    using that by (simp add: getCompeletionItem_eq scanned_def)
  show "fst (onCompletion eng params st) =
        Inr ((if languageId docs \<in> set (html_filetypes (globalSettings st))
              then items_of (fst (getCompeletionItem eng (line (position params))
                     (requested_line docs params) (character (position params)) None st))
              else []) @
             (if languageId docs \<in> set (css_filetypes (globalSettings st))
              then items_of (fst (getCompeletionItem eng (line (position params))
                     (requested_line docs params) (character (position params))
                     (Some stylesheet_opts) st))
              else []))"
    if "documents st (uri (textDocument params)) = Some docs"
    using that by (rule onCompletion_items)
qed

theorem attempt_contains_engine_errors_witness:
  "getCompeletionItem demo_engine 1 ''  ul!li x>y m10'' 16 None demo_state =
     (Inr None, console_log (''ERR: '' @ error_text (Thrown ''Error: position past the end of the line''))
                  (scanned ''  ul!li x>y m10'' 16 (opts_or_empty None) demo_state)) \<and>
   console (snd (getCompeletionItem demo_engine 1 ''  ul!li x>y m10'' 16 None demo_state)) =
     [''ERR: Error: position past the end of the line''] \<and>
   console (snd (getCompeletionItem demo_engine 1 ''  ul!li x>y m10'' 7 None demo_state)) =
     [''ERR: Error: unexpected character''] \<and>
   console (snd (getCompeletionItem demo_engine 1 ''  ul!li x>y m10'' 12 None demo_state)) = [] \<and>
   console (snd (onCompletion demo_engine (demo_request ''file:///a.vue'' 1 7) demo_state)) =
     [''ERR: Error: unexpected character''] \<and>
   getCompeletionItem demo_engine 1 ''  ul!li x>y m10'' 12 None demo_state =
     (Inr None, scanned ''  ul!li x>y m10'' 12 (opts_or_empty None) demo_state) \<and>
   console (snd (getCompeletionItem demo_engine 1 ''  ul!li x>y m10'' 12 None demo_state)) =
     console demo_state \<and>
   render demo_engine \<lparr>opt_type = None\<rparr> ''ul!li'' = Inl (Thrown ''Error: unexpected character'') \<and>
   getCompeletionItem demo_engine 1 ''  ul!li x>y m10'' 7 None demo_state =
     (Inr None, console_log (''ERR: '' @ error_text (Thrown ''Error: unexpected character''))
                  (scanned ''  ul!li x>y m10'' 7 (opts_or_empty None) demo_state)) \<and>
   fst (onCompletion demo_engine (demo_request ''file:///a.vue'' 1 7) demo_state) =
     Inr [buildCompletionItem ''ul!li'' ''ul!li: ${1};'' (buildRange 1 2 2)]"
proof -
  let ?ln = "''  ul!li x>y m10''"
  let ?boom = "Thrown ''Error: unexpected character''"
  let ?past = "Thrown ''Error: position past the end of the line''"
  let ?ep = "\<lparr>abbreviation = Some ''ul!li'', location = 2, ex_start = 2, ex_end = 7\<rparr>"
  let ?cfg = "\<lparr>config_type = None, output_field = Some field_hook\<rparr>"
  note at16 = attempt_contains_engine_errors
    [of demo_engine 1 ?ln 16 None demo_state ?past ?ep "''ul!li''" ?cfg "''ul!li''" "''ul!li''"
        "demo_request ''file:///a.vue'' 1 7" demo_document]
  note at12 = attempt_contains_engine_errors
    [of demo_engine 1 ?ln 12 None demo_state ?boom ?ep "''ul!li''" ?cfg "''ul!li''" "''ul!li''"
        "demo_request ''file:///a.vue'' 1 7" demo_document]
  note at7 = attempt_contains_engine_errors
    [of demo_engine 1 ?ln 7 None demo_state ?boom ?ep "''ul!li''" ?cfg "''ul!li''" "''ul!li''"
        "demo_request ''file:///a.vue'' 1 7" demo_document]
  have start: "console demo_state = []"
    by (simp add: demo_state_def initial_state_def)
  have a: "getCompeletionItem demo_engine 1 ?ln 16 None demo_state =
     (Inr None, console_log (''ERR: '' @ error_text ?past) (scanned ?ln 16 (opts_or_empty None) demo_state))"
    using at16 demo_extract_at_16 [of "opts_or_empty None"] by blast
  have "console (snd (getCompeletionItem demo_engine 1 ?ln 16 None demo_state)) =
          console demo_state @ [''ERR: '' @ error_text ?past]"
    using at16 demo_extract_at_16 [of "opts_or_empty None"] by blast
  then have a_log: "console (snd (getCompeletionItem demo_engine 1 ?ln 16 None demo_state)) =
          [''ERR: Error: position past the end of the line'']"
    by (simp add: start)
  have b: "getCompeletionItem demo_engine 1 ?ln 12 None demo_state =
             (Inr None, scanned ?ln 12 (opts_or_empty None) demo_state) \<and>
           console (snd (getCompeletionItem demo_engine 1 ?ln 12 None demo_state)) = console demo_state"
    using at12 demo_extract_at_12 [of "opts_or_empty None"] by blast
  have c: "render demo_engine \<lparr>opt_type = None\<rparr> ''ul!li'' = Inl ?boom"
    using at7 demo_parseMarkup_rejects(1) demo_parseMarkup_rejects(2) [of ?cfg] by blast
  have abbr: "abbreviation ?ep = Some ''ul!li''"
    by simp
  have none: "opts_or_empty None = \<lparr>opt_type = None\<rparr>"
    by (simp add: opts_or_empty_def)
  have c': "render demo_engine (opts_or_empty None) ''ul!li'' = Inl ?boom"
    using c by (simp only: none)
  have d: "getCompeletionItem demo_engine 1 ?ln 7 None demo_state =
     (Inr None, console_log (''ERR: '' @ error_text ?boom) (scanned ?ln 7 (opts_or_empty None) demo_state))"
    using at7 demo_extract_at_7 [of "opts_or_empty None"] abbr c' by blast
  have "console (snd (getCompeletionItem demo_engine 1 ?ln 7 None demo_state)) =
          console demo_state @ [''ERR: '' @ error_text ?boom]"
    using at7 demo_extract_at_7 [of "opts_or_empty None"] abbr c' by blast
  then have d_log: "console (snd (getCompeletionItem demo_engine 1 ?ln 7 None demo_state)) =
          [''ERR: Error: unexpected character'']"
    by (simp add: start)
  from b have "console (snd (getCompeletionItem demo_engine 1 ?ln 12 None demo_state)) =
                 console demo_state"
    by blast
  then have b_log: "console (snd (getCompeletionItem demo_engine 1 ?ln 12 None demo_state)) = []"
    by (simp only: start)
  have "fst (onCompletion demo_engine (demo_request ''file:///a.vue'' 1 7) demo_state) =
     Inr ((if languageId demo_document \<in> set (html_filetypes (globalSettings demo_state))
           then items_of (fst (getCompeletionItem demo_engine (line (position (demo_request ''file:///a.vue'' 1 7)))
                  (requested_line demo_document (demo_request ''file:///a.vue'' 1 7))
                  (character (position (demo_request ''file:///a.vue'' 1 7))) None demo_state))
           else []) @
          (if languageId demo_document \<in> set (css_filetypes (globalSettings demo_state))
           then items_of (fst (getCompeletionItem demo_engine (line (position (demo_request ''file:///a.vue'' 1 7)))
                  (requested_line demo_document (demo_request ''file:///a.vue'' 1 7))
                  (character (position (demo_request ''file:///a.vue'' 1 7)))
                  (Some stylesheet_opts) demo_state))
           else []))"
    using at7 demo_found [of 1 7] by blast
  then have e: "fst (onCompletion demo_engine (demo_request ''file:///a.vue'' 1 7) demo_state) =
     Inr [buildCompletionItem ''ul!li'' ''ul!li: ${1};'' (buildRange 1 2 2)]"
    by (simp only: demo_routed demo_line_1 demo_position demo_markup_at_7 demo_stylesheet_at_7
          fst_conv items_of_def if_True sum.case option.case append.simps)
  from a a_log b b_log c d d_log e demo_console_at_7 show ?thesis by blast
qed

section \<open>Routing by language id\<close>

lemma onCompletion_not_routed:
  assumes "documents st (uri (textDocument params)) = Some docs"
      and "languageId docs \<notin> set (html_filetypes (globalSettings st))"
      and "languageId docs \<notin> set (css_filetypes (globalSettings st))"
  shows "onCompletion eng params st = (Inr [], st)"
  using assms by (simp add: onCompletion_found attempt_eq Let_def)

lemma onCompletion_at_most_two:
  assumes "documents st (uri (textDocument params)) = Some docs"
  shows "\<exists>items. fst (onCompletion eng params st) = Inr items \<and> length items \<le> 2"
proof -
  have two: "length (items_of a) + length (items_of b) \<le> 2" for a b
    using length_items_of [of a] length_items_of [of b] by arith
  have one: "length (items_of a) \<le> 2" for a
    using length_items_of [of a] by arith
  show ?thesis
    by (simp add: onCompletion_items [OF assms] two one)
qed

lemma demo_markup_at_15:
  "fst (getCompeletionItem demo_engine linenr ''  ul!li x>y m10'' 15 None st) =
     Inr (Some (buildCompletionItem ''m10'' ''<m10>${1}</m10>'' (buildRange linenr 12 12)))"
  by (simp add: getCompeletionItem_eq demo_engine_simps)

lemma demo_stylesheet_at_15:
  "fst (getCompeletionItem demo_engine linenr ''  ul!li x>y m10'' 15 (Some stylesheet_opts) st) =
     Inr (Some (buildCompletionItem ''m10'' ''m10: ${1};'' (buildRange linenr 12 12)))"
  by (simp add: getCompeletionItem_eq demo_engine_simps)

text \<open>
  C4. In a request for an open document, the scanner is called once with the markup
  options exactly when the document's language id is in \<open>html_filetypes\<close>, and once
  with the stylesheet options exactly when it is in \<open>css_filetypes\<close>, in that order and
  on the requested line; the reply has at most two items; and when the language id is in
  neither list the reply is empty and neither the scanner nor anything else was touched.
\<close>

theorem grammars_are_routed_by_language_id:
  assumes "documents st (uri (textDocument params)) = Some docs"
  shows "extract_calls (snd (onCompletion eng params st)) =
           extract_calls st @
           (if languageId docs \<in> set (html_filetypes (globalSettings st))
            then [(requested_line docs params, character (position params), markup_opts)] else []) @
           (if languageId docs \<in> set (css_filetypes (globalSettings st))
            then [(requested_line docs params, character (position params), stylesheet_opts)] else []) \<and>
         (\<exists>items. fst (onCompletion eng params st) = Inr items \<and> length items \<le> 2) \<and>
         (languageId docs \<notin> set (html_filetypes (globalSettings st)) \<and>
          languageId docs \<notin> set (css_filetypes (globalSettings st)) \<longrightarrow>
            onCompletion eng params st = (Inr [], st))"
  using onCompletion_extract_calls [OF assms, of eng] onCompletion_at_most_two [OF assms, of eng]
    onCompletion_not_routed [OF assms, of eng]
  by blast

theorem grammars_are_routed_by_language_id_witness:
  "extract_calls (snd (onCompletion demo_engine (demo_request ''file:///a.vue'' 1 15) demo_state)) =
     [(''  ul!li x>y m10'', 15, markup_opts), (''  ul!li x>y m10'', 15, stylesheet_opts)] \<and>
   fst (onCompletion demo_engine (demo_request ''file:///a.vue'' 1 15) demo_state) =
     Inr [buildCompletionItem ''m10'' ''<m10>${1}</m10>'' (buildRange 1 12 12),
          buildCompletionItem ''m10'' ''m10: ${1};'' (buildRange 1 12 12)] \<and>
   onCompletion demo_engine (demo_request ''file:///a.vue'' 1 15)
       (demo_state\<lparr>globalSettings := defaultSettings\<rparr>) =
     (Inr [], demo_state\<lparr>globalSettings := defaultSettings\<rparr>)"
proof -
  let ?st = "demo_state\<lparr>globalSettings := defaultSettings\<rparr>"
  have found: "documents ?st (uri (textDocument (demo_request ''file:///a.vue'' 1 15))) = Some demo_document"
    using demo_found [of 1 15] by simp
  have neither:
    "languageId demo_document \<notin> set (html_filetypes (globalSettings ?st)) \<and>
     languageId demo_document \<notin> set (css_filetypes (globalSettings ?st))"
    by (simp add: defaultSettings_def demo_document_def)
  have empty: "extract_calls demo_state = []"
    by (simp add: demo_state_def initial_state_def)
  from grammars_are_routed_by_language_id [OF demo_found [of 1 15], of demo_engine]
  have calls: "extract_calls (snd (onCompletion demo_engine (demo_request ''file:///a.vue'' 1 15) demo_state)) =
     [(''  ul!li x>y m10'', 15, markup_opts), (''  ul!li x>y m10'', 15, stylesheet_opts)]"
    by (simp only: demo_routed demo_line_1 demo_position empty if_True append.simps)
  have items: "fst (onCompletion demo_engine (demo_request ''file:///a.vue'' 1 15) demo_state) =
     Inr [buildCompletionItem ''m10'' ''<m10>${1}</m10>'' (buildRange 1 12 12),
          buildCompletionItem ''m10'' ''m10: ${1};'' (buildRange 1 12 12)]"
    by (simp only: onCompletion_items [OF demo_found] demo_routed demo_line_1 demo_position
          demo_markup_at_15 demo_stylesheet_at_15 items_of_def if_True sum.case option.case
          append.simps)
  from grammars_are_routed_by_language_id [OF found, of demo_engine] neither
  have none: "onCompletion demo_engine (demo_request ''file:///a.vue'' 1 15) ?st = (Inr [], ?st)"
    by blast
  from calls items none show ?thesis by blast
qed

section \<open>The fields of a completion item\<close>

text \<open>
  C8, as the specification states it, fails: the documentation of an item is the snippet
  text, not a preview rendered with the hook unset. On the small engine the item for
  \<open>m10\<close> documents \<open><m10>${1}</m10>\<close>, and the preview of the specification is
  \<open><m10></m10>\<close>.
\<close>

theorem documentation_is_the_snippet_not_a_preview:
  "fst (getCompeletionItem demo_engine 1 ''  ul!li x>y m10'' 15 None demo_state) =
     Inr (Some (buildCompletionItem ''m10'' ''<m10>${1}</m10>'' (buildRange 1 12 12))) \<and>
   documentation (buildCompletionItem ''m10'' ''<m10>${1}</m10>'' (buildRange 1 12 12)) =
     ''<m10>${1}</m10>'' \<and>
   spec_previewText demo_engine (opts_or_empty None) ''m10'' = Inr ''<m10></m10>'' \<and>
   Inr (documentation (buildCompletionItem ''m10'' ''<m10>${1}</m10>'' (buildRange 1 12 12))) \<noteq>
     spec_previewText demo_engine (opts_or_empty None) ''m10''"
proof -
  let ?item = "buildCompletionItem ''m10'' ''<m10>${1}</m10>'' (buildRange 1 12 12)"
  have run: "fst (getCompeletionItem demo_engine 1 ''  ul!li x>y m10'' 15 None demo_state) =
     Inr (Some ?item)"
    by (rule demo_markup_at_15)
  have doc: "documentation ?item = ''<m10>${1}</m10>''"
    by (simp add: buildCompletionItem_def)
  have preview: "spec_previewText demo_engine (opts_or_empty None) ''m10'' = Inr ''<m10></m10>''"
    by (simp add: demo_engine_simps)
  have differ: "Inr (documentation ?item) \<noteq> spec_previewText demo_engine (opts_or_empty None) ''m10''"
    by (simp only: doc preview) simp
  from run doc preview differ show ?thesis by blast
qed

text \<open>
  C8, amended. Every item an attempt returns has label and detail equal to the
  abbreviation the scanner found, insert-text format and kind both Snippet, a text edit
  whose range is the computed range and whose new text is the snippet text rendered with
  the hook installed, and a documentation equal to that same snippet text.
\<close>

theorem completion_item_fields:
  assumes "fst (getCompeletionItem eng linenr ln char opts st) = Inr (Some item)"
  shows "\<exists>ep abbr textResult.
           extract eng ln char (opts_or_empty opts) = Inr (Some ep) \<and>
           abbreviation ep = Some abbr \<and>
           render eng (opts_or_empty opts) abbr = Inr textResult \<and>
           label item = abbr \<and>
           detail item = abbr \<and>
           documentation item = textResult \<and>
           newText (textEdit item) = textResult \<and>
           insertTextFormat item = InsertTextFormat_Snippet \<and>
           kind item = Kind_Snippet \<and>
           range (textEdit item) = buildRange linenr (ex_start ep) (ex_start ep) \<and>
           data item = \<lparr>data_range = buildRange linenr (ex_start ep) (ex_start ep),
                        data_textResult = textResult\<rparr>"
proof -
  from getCompeletionItem_item [OF assms]
  obtain ep abbr textResult where
    found: "extract eng ln char (opts_or_empty opts) = Inr (Some ep)"
      "abbreviation ep = Some abbr"
      "render eng (opts_or_empty opts) abbr = Inr textResult"
    and item: "item = buildCompletionItem abbr textResult (buildRange linenr (ex_start ep) (ex_start ep))"
    by blast
  from item have
    "label item = abbr \<and> detail item = abbr \<and> documentation item = textResult \<and>
     newText (textEdit item) = textResult \<and>
     insertTextFormat item = InsertTextFormat_Snippet \<and> kind item = Kind_Snippet \<and>
     range (textEdit item) = buildRange linenr (ex_start ep) (ex_start ep) \<and>
     data item = \<lparr>data_range = buildRange linenr (ex_start ep) (ex_start ep),
                  data_textResult = textResult\<rparr>"
    by (simp add: buildCompletionItem_def)
  with found show ?thesis by blast
qed

theorem completion_item_fields_witness:
  "fst (getCompeletionItem demo_engine 1 ''  ul!li x>y m10'' 15 (Some stylesheet_opts) demo_state) =
     Inr (Some (buildCompletionItem ''m10'' ''m10: ${1};'' (buildRange 1 12 12))) \<and>
   (\<exists>ep abbr textResult.
      extract demo_engine ''  ul!li x>y m10'' 15 (opts_or_empty (Some stylesheet_opts)) = Inr (Some ep) \<and>
      abbreviation ep = Some abbr \<and>
      render demo_engine (opts_or_empty (Some stylesheet_opts)) abbr = Inr textResult \<and>
      label (buildCompletionItem ''m10'' ''m10: ${1};'' (buildRange 1 12 12)) = abbr \<and>
      detail (buildCompletionItem ''m10'' ''m10: ${1};'' (buildRange 1 12 12)) = abbr \<and>
      documentation (buildCompletionItem ''m10'' ''m10: ${1};'' (buildRange 1 12 12)) = textResult \<and>
      newText (textEdit (buildCompletionItem ''m10'' ''m10: ${1};'' (buildRange 1 12 12))) = textResult \<and>
      insertTextFormat (buildCompletionItem ''m10'' ''m10: ${1};'' (buildRange 1 12 12)) =
        InsertTextFormat_Snippet \<and>
      kind (buildCompletionItem ''m10'' ''m10: ${1};'' (buildRange 1 12 12)) = Kind_Snippet \<and>
      range (textEdit (buildCompletionItem ''m10'' ''m10: ${1};'' (buildRange 1 12 12))) =
        buildRange 1 (ex_start ep) (ex_start ep) \<and>
      data (buildCompletionItem ''m10'' ''m10: ${1};'' (buildRange 1 12 12)) =
        \<lparr>data_range = buildRange 1 (ex_start ep) (ex_start ep), data_textResult = textResult\<rparr>) \<and>
   label (buildCompletionItem ''m10'' ''m10: ${1};'' (buildRange 1 12 12)) = ''m10'' \<and>
   documentation (buildCompletionItem ''m10'' ''m10: ${1};'' (buildRange 1 12 12)) = ''m10: ${1};''"
proof -
  have run: "fst (getCompeletionItem demo_engine 1 ''  ul!li x>y m10'' 15 (Some stylesheet_opts) demo_state) =
     Inr (Some (buildCompletionItem ''m10'' ''m10: ${1};'' (buildRange 1 12 12)))"
    by (rule demo_stylesheet_at_15)
  have concrete:
    "label (buildCompletionItem ''m10'' ''m10: ${1};'' (buildRange 1 12 12)) = ''m10'' \<and>
     documentation (buildCompletionItem ''m10'' ''m10: ${1};'' (buildRange 1 12 12)) = ''m10: ${1};''"
    by (simp add: buildCompletionItem_def)
  from run completion_item_fields [OF run] concrete show ?thesis by blast
qed

section \<open>A line number past the end of the text\<close>

lemma split_from_not_empty: "split_from cur cs \<noteq> []"
  by (induction cur cs rule: split_from.induct) auto

text \<open>
  C10. When the requested line number is not below the number of lines of the document,
  the handler's body still ends without throwing; the line it works on is the text
  \<open>undefined\<close>; the scanner is called on that text for each grammar the language id is
  routed to; and the reply holds the items of those attempts.
\<close>

theorem line_past_the_end_is_scanned_as_undefined:
  assumes "documents st (uri (textDocument params)) = Some docs"
      and "length (split_lines (getText docs)) \<le> line (position params)"
  shows "requested_line docs params = ''undefined'' \<and>
         (\<exists>items. fst (onCompletion_body eng params st) = Inr items) \<and>
         onCompletion eng params st = onCompletion_body eng params st \<and>
         extract_calls (snd (onCompletion eng params st)) =
           extract_calls st @
           (if languageId docs \<in> set (html_filetypes (globalSettings st))
            then [(''undefined'', character (position params), markup_opts)] else []) @
           (if languageId docs \<in> set (css_filetypes (globalSettings st))
            then [(''undefined'', character (position params), stylesheet_opts)] else []) \<and>
         fst (onCompletion eng params st) =
           Inr ((if languageId docs \<in> set (html_filetypes (globalSettings st))
                 then items_of (fst (getCompeletionItem eng (line (position params)) ''undefined''
                        (character (position params)) None st))
                 else []) @
                (if languageId docs \<in> set (css_filetypes (globalSettings st))
                 then items_of (fst (getCompeletionItem eng (line (position params)) ''undefined''
                        (character (position params)) (Some stylesheet_opts) st))
                 else []))"
proof -
  from assms(2) have ln: "requested_line docs params = ''undefined''"
    by (simp add: requested_line_def index_or_undefined_def String_of_def)
  show ?thesis
    using onCompletion_body_found [OF assms(1), of eng]
      onCompletion_extract_calls [OF assms(1), of eng] onCompletion_items [OF assms(1), of eng]
    by (simp only: ln)
qed

lemma demo_markup_undefined:
  "fst (getCompeletionItem demo_engine linenr ''undefined'' 3 None st) =
     Inr (Some (buildCompletionItem ''und'' ''<und>${1}</und>'' (buildRange linenr 0 0)))"
  by (simp add: getCompeletionItem_eq demo_engine_simps)

lemma demo_stylesheet_undefined:
  "fst (getCompeletionItem demo_engine linenr ''undefined'' 3 (Some stylesheet_opts) st) =
     Inr (Some (buildCompletionItem ''und'' ''und: ${1};'' (buildRange linenr 0 0)))"
  by (simp add: getCompeletionItem_eq demo_engine_simps)

theorem line_past_the_end_is_scanned_as_undefined_witness:
  "length (split_lines (getText demo_document)) \<le> line (position (demo_request ''file:///a.vue'' 2 3)) \<and>
   requested_line demo_document (demo_request ''file:///a.vue'' 2 3) = ''undefined'' \<and>
   extract_calls (snd (onCompletion demo_engine (demo_request ''file:///a.vue'' 2 3) demo_state)) =
     [(''undefined'', 3, markup_opts), (''undefined'', 3, stylesheet_opts)] \<and>
   fst (onCompletion demo_engine (demo_request ''file:///a.vue'' 2 3) demo_state) =
     Inr [buildCompletionItem ''und'' ''<und>${1}</und>'' (buildRange 2 0 0),
          buildCompletionItem ''und'' ''und: ${1};'' (buildRange 2 0 0)]"
proof -
  have past: "length (split_lines (getText demo_document)) \<le> line (position (demo_request ''file:///a.vue'' 2 3))"
    by (simp add: demo_lines demo_position)
  have empty: "extract_calls demo_state = []"
    by (simp add: demo_state_def initial_state_def)
  note at = line_past_the_end_is_scanned_as_undefined [OF demo_found [of 2 3] past, of demo_engine]
  from at have ln: "requested_line demo_document (demo_request ''file:///a.vue'' 2 3) = ''undefined''"
    by blast
  from at have "extract_calls (snd (onCompletion demo_engine (demo_request ''file:///a.vue'' 2 3) demo_state)) =
           extract_calls demo_state @
           (if languageId demo_document \<in> set (html_filetypes (globalSettings demo_state))
            then [(''undefined'', character (position (demo_request ''file:///a.vue'' 2 3)), markup_opts)] else []) @
           (if languageId demo_document \<in> set (css_filetypes (globalSettings demo_state))
            then [(''undefined'', character (position (demo_request ''file:///a.vue'' 2 3)), stylesheet_opts)] else [])"
    by blast
  then have calls: "extract_calls (snd (onCompletion demo_engine (demo_request ''file:///a.vue'' 2 3) demo_state)) =
     [(''undefined'', 3, markup_opts), (''undefined'', 3, stylesheet_opts)]"
    by (simp only: demo_routed demo_position empty if_True append.simps)
  from at have "fst (onCompletion demo_engine (demo_request ''file:///a.vue'' 2 3) demo_state) =
           Inr ((if languageId demo_document \<in> set (html_filetypes (globalSettings demo_state))
                 then items_of (fst (getCompeletionItem demo_engine (line (position (demo_request ''file:///a.vue'' 2 3))) ''undefined''
                        (character (position (demo_request ''file:///a.vue'' 2 3))) None demo_state))
                 else []) @
                (if languageId demo_document \<in> set (css_filetypes (globalSettings demo_state))
                 then items_of (fst (getCompeletionItem demo_engine (line (position (demo_request ''file:///a.vue'' 2 3))) ''undefined''
                        (character (position (demo_request ''file:///a.vue'' 2 3))) (Some stylesheet_opts) demo_state))
                 else []))"
    by blast
  then have items: "fst (onCompletion demo_engine (demo_request ''file:///a.vue'' 2 3) demo_state) =
     Inr [buildCompletionItem ''und'' ''<und>${1}</und>'' (buildRange 2 0 0),
          buildCompletionItem ''und'' ''und: ${1};'' (buildRange 2 0 0)]"
    by (simp only: demo_routed demo_position demo_markup_undefined demo_stylesheet_undefined
          items_of_def if_True sum.case option.case append.simps)
  from past ln calls items show ?thesis by blast
qed

end
